theory Spec2Isabelle
  imports Main "HOL-Library.Sublist"
begin

section \<open>The riak execution module (modules/riak.py)\<close>

text \<open>
  The module drives a Riak node through \<^verbatim>\<open>riak\<close> and \<^verbatim>\<open>riak-admin\<close>: each function builds a
  command string, hands it to \<^verbatim>\<open>__salt__['cmd.run']\<close> and interprets the captured text.

  Strings are byte strings (Python 2 \<^verbatim>\<open>str\<close>, which is what \<^verbatim>\<open>cmd.run\<close> returns in the Salt
  this module was written for): a \<^typ>\<open>string\<close> is a list of 8-bit characters.
\<close>

subsection \<open>String methods of Python used by the module\<close>

text \<open>\<^verbatim>\<open>s.startswith(p)\<close>.\<close>

definition startswith :: "string \<Rightarrow> string \<Rightarrow> bool" where
  "startswith s p = prefix p s"

text \<open>
  \<^verbatim>\<open>s.split(sep)\<close> for a separator string: a scan from the left, cutting at every occurrence
  that does not overlap the previous cut. The pieces between the cuts are returned, the empty
  ones too, so the result always has at least one element. Python raises \<^verbatim>\<open>ValueError\<close> for
  the empty separator; every call of the module passes a literal, non-empty separator
  (\<^verbatim>\<open>'\n'\<close>, \<^verbatim>\<open>"@"\<close>, \<^verbatim>\<open>'/'\<close>, \<^verbatim>\<open>':'\<close>, \<^verbatim>\<open>" : "\<close>), and for the empty one the scan
  below finds no cut.
\<close>

function py_split_go :: "string \<Rightarrow> string \<Rightarrow> string \<Rightarrow> string list" where
  "py_split_go sep cur [] = [cur]"
| "py_split_go sep cur (c # cs) =
     (if sep \<noteq> [] \<and> prefix sep (c # cs)
      then cur # py_split_go sep [] (drop (length sep) (c # cs))
      else py_split_go sep (cur @ [c]) cs)"
  by pat_completeness auto
termination
  by (relation "measure (\<lambda>(sep, cur, s). length s)") (auto simp: neq_Nil_conv)

definition py_split :: "string \<Rightarrow> string \<Rightarrow> string list" where
  "py_split sep s = py_split_go sep [] s"

text \<open>
  \<^verbatim>\<open>s.splitlines()\<close> of a byte string: a line ends at \<^verbatim>\<open>\n\<close>, \<^verbatim>\<open>\r\<close> or \<^verbatim>\<open>\r\n\<close>; the line
  breaks are dropped, and a line break at the very end opens no further, empty line.
\<close>

fun splitlines_go :: "string \<Rightarrow> string \<Rightarrow> string list" where
  "splitlines_go cur [] = (if cur = [] then [] else [cur])"
| "splitlines_go cur (c # cs) =
     (if c = CHR 0x0D then
        (case cs of
           [] \<Rightarrow> [cur]
         | d # ds \<Rightarrow> if d = CHR 0x0A then cur # splitlines_go [] ds
                     else cur # splitlines_go [] cs)
      else if c = CHR 0x0A then cur # splitlines_go [] cs
      else splitlines_go (cur @ [c]) cs)"

definition splitlines :: "string \<Rightarrow> string list" where
  "splitlines s = splitlines_go [] s"

text \<open>
  Whitespace of a byte string (\<^verbatim>\<open>isspace\<close>): space, \<^verbatim>\<open>\t\<close>, \<^verbatim>\<open>\n\<close>, \<^verbatim>\<open>\v\<close>, \<^verbatim>\<open>\f\<close>, \<^verbatim>\<open>\r\<close>.
\<close>

definition isspace :: "char \<Rightarrow> bool" where
  "isspace c = (c = CHR 0x20 \<or> c = CHR 0x09 \<or> c = CHR 0x0A \<or> c = CHR 0x0B
                \<or> c = CHR 0x0C \<or> c = CHR 0x0D)"

text \<open>
  \<^verbatim>\<open>s.split()\<close> with no argument: the maximal runs of non-whitespace characters, in order;
  no empty string is ever returned.
\<close>

fun split_ws_go :: "string \<Rightarrow> string \<Rightarrow> string list" where
  "split_ws_go cur [] = (if cur = [] then [] else [cur])"
| "split_ws_go cur (c # cs) =
     (if isspace c
      then (if cur = [] then split_ws_go [] cs else cur # split_ws_go [] cs)
      else split_ws_go (cur @ [c]) cs)"

definition split_ws :: "string \<Rightarrow> string list" where
  "split_ws s = split_ws_go [] s"

text \<open>\<^verbatim>\<open>s.strip()\<close>: whitespace removed at both ends.\<close>

definition strip :: "string \<Rightarrow> string" where
  "strip s = rev (dropWhile isspace (rev (dropWhile isspace s)))"

subsection \<open>Values, exceptions and the command executor\<close>

text \<open>
  The functions return values of several Python types; an uncaught exception is the left
  summand of the result. \<^verbatim>\<open>IndexError\<close> is raised by \<^verbatim>\<open>msgs[0]\<close> on an empty list,
  \<^verbatim>\<open>ValueError\<close> by the unpacking \<^verbatim>\<open>key, val = item.split(':')\<close> of a list that does not have
  two elements.
\<close>

datatype py_error = IndexError | ValueError

datatype py_val =
    PyNone
  | PyBool bool
  | PyInt int
  | PyStr string
  | PyList "string list"

text \<open>
  \<^verbatim>\<open>__salt__['cmd.run']\<close> is the one way out of the module. The executor is a parameter: given
  the commands run so far and the command, it yields the captured output. The state threaded
  through every function is the list of the commands it has been given, oldest first.
\<close>

type_synonym executor = "string list \<Rightarrow> string \<Rightarrow> string"

definition cmd_run :: "executor \<Rightarrow> string \<Rightarrow> string list \<Rightarrow> string \<times> string list" where
  "cmd_run ex cmd log = (ex log cmd, log @ [cmd])"

subsection \<open>The output normaliser\<close>

text \<open>
  Lines 28 to 31 of \<^verbatim>\<open>version\<close>, repeated word for word in \<^verbatim>\<open>cluster_join\<close>,
  \<^verbatim>\<open>cluster_leave\<close>, \<^verbatim>\<open>cluster_replace\<close>, \<^verbatim>\<open>cluster_plan\<close>, \<^verbatim>\<open>cluster_clear\<close> and
  \<^verbatim>\<open>cluster_commit\<close>:
  \<^verbatim>\<open>
    out = __salt__['cmd.run'](cmd).split('\n')
    msgs = [line for line in out if not line.startswith("!!!!")]
    if len(msgs) > 0 and msgs[0].startswith("Attempting"):
        del(msgs[0])
  \<close>
\<close>

definition normalized_lines :: "string \<Rightarrow> string list" where
  "normalized_lines raw =
     (let out = py_split ''\<newline>'' raw;
          msgs = filter (\<lambda>line. \<not> startswith line ''!!!!'') out
      in if length msgs > 0 \<and> startswith (msgs ! 0) ''Attempting'' then tl msgs else msgs)"

subsection \<open>version and the cluster operations\<close>

definition version :: "executor \<Rightarrow> string list \<Rightarrow> (py_error + py_val) \<times> string list" where
  "version ex log =
     (let cmd = ''riak version'';
          (raw, log') = cmd_run ex cmd log;
          msgs = normalized_lines raw
      in (case msgs of [] \<Rightarrow> Inl IndexError | m # _ \<Rightarrow> Inr (PyStr m), log'))"

definition cluster_join ::
  "executor \<Rightarrow> string \<Rightarrow> string list \<Rightarrow> (py_error + py_val) \<times> string list" where
  "cluster_join ex node log =
     (if length (py_split ''@'' node) \<noteq> 2 then (Inr (PyBool False), log)
      else
        let cmd = ''riak-admin cluster join '' @ node;
            (raw, log') = cmd_run ex cmd log;
            msgs = normalized_lines raw
        in (case msgs of
              [] \<Rightarrow> Inl IndexError
            | m # _ \<Rightarrow> if startswith m ''Success'' then Inr (PyBool True) else Inr (PyStr m),
            log'))"

text \<open>\<^verbatim>\<open>node=None\<close> is the absent node; \<^verbatim>\<open>force\<close> is a boolean.\<close>

definition cluster_leave ::
  "executor \<Rightarrow> string option \<Rightarrow> bool \<Rightarrow> string list \<Rightarrow> (py_error + py_val) \<times> string list"
where
  "cluster_leave ex node force log =
     (if node \<noteq> None \<and> length (py_split ''@'' (the node)) \<noteq> 2 then (Inr (PyBool False), log)
      else
        let cmd = (if force = False then ''riak-admin cluster leave''
                   else ''riak-admin cluster force-remove'');
            cmd = (case node of None \<Rightarrow> cmd | Some n \<Rightarrow> cmd @ '' '' @ n);
            (raw, log') = cmd_run ex cmd log;
            msgs = normalized_lines raw
        in (case msgs of
              [] \<Rightarrow> Inl IndexError
            | m # _ \<Rightarrow> if startswith m ''Success'' then Inr (PyBool True) else Inr (PyStr m),
            log'))"

text \<open>The parameter \<^verbatim>\<open>force\<close> of \<^verbatim>\<open>cluster_replace\<close> is never read.\<close>

definition cluster_replace ::
  "executor \<Rightarrow> string \<Rightarrow> string \<Rightarrow> bool \<Rightarrow> string list \<Rightarrow> (py_error + py_val) \<times> string list"
where
  "cluster_replace ex node1 node2 force log =
     (if length (py_split ''@'' node1) \<noteq> 2 \<and> length (py_split ''@'' node2) \<noteq> 2
      then (Inr (PyBool False), log)
      else
        let cmd = ''riak-admin cluster replace '' @ node1 @ '' '' @ node2;
            (raw, log') = cmd_run ex cmd log;
            msgs = normalized_lines raw
        in (case msgs of
              [] \<Rightarrow> Inl IndexError
            | m # _ \<Rightarrow> if startswith m ''Success'' then Inr (PyBool True) else Inr (PyStr m),
            log'))"

definition cluster_plan :: "executor \<Rightarrow> string list \<Rightarrow> (py_error + py_val) \<times> string list" where
  "cluster_plan ex log =
     (let cmd = ''riak-admin cluster plan'';
          (raw, log') = cmd_run ex cmd log;
          msgs = normalized_lines raw
      in (case msgs of
            [] \<Rightarrow> Inl IndexError
          | m # _ \<Rightarrow> if m = ''There are no staged changes'' then Inr PyNone
                     else Inr (PyList msgs),
          log'))"

definition cluster_clear :: "executor \<Rightarrow> string list \<Rightarrow> (py_error + py_val) \<times> string list" where
  "cluster_clear ex log =
     (let cmd = ''riak-admin cluster clear'';
          (raw, log') = cmd_run ex cmd log;
          msgs = normalized_lines raw
      in (case msgs of
            [] \<Rightarrow> Inl IndexError
          | m # _ \<Rightarrow> if m = ''Cleared staged cluster changes'' then Inr (PyBool True)
                     else Inr (PyStr m),
          log'))"

definition cluster_commit :: "executor \<Rightarrow> string list \<Rightarrow> (py_error + py_val) \<times> string list" where
  "cluster_commit ex log =
     (let cmd = ''riak-admin cluster commit'';
          (raw, log') = cmd_run ex cmd log;
          msgs = normalized_lines raw
      in (case msgs of
            [] \<Rightarrow> (Inl IndexError, log')
          | m # _ \<Rightarrow> if startswith m ''You must verify the plan'' then cluster_plan ex log'
                     else (Inr (PyStr m), log')))"

subsection \<open>member_status\<close>

text \<open>
  \<^verbatim>\<open>ret\<close> is a dictionary with the two keys \<^verbatim>\<open>'membership'\<close> and \<^verbatim>\<open>'summary'\<close>, each bound to
  a dictionary. The summary starts with the integer 0 under five keys and receives strings.
\<close>

record member_status_ret =
  membership :: "string \<rightharpoonup> (string \<rightharpoonup> string)"
  summary :: "string \<rightharpoonup> py_val"

definition member_status_init :: member_status_ret where
  "member_status_init =
     \<lparr>membership = Map.empty,
      summary = [''Valid'' \<mapsto> PyInt 0, ''Leaving'' \<mapsto> PyInt 0, ''Exiting'' \<mapsto> PyInt 0,
                 ''Joining'' \<mapsto> PyInt 0, ''Down'' \<mapsto> PyInt 0]\<rparr>"

text \<open>
  The inner loop over the pieces of a summary line (lines 323 to 325):
  \<^verbatim>\<open>
    for item in comps:
        key, val = item.split(':')
        ret['summary'][key.strip()] = val.strip()
  \<close>
\<close>

fun summary_items :: "string list \<Rightarrow> (string \<rightharpoonup> py_val) \<Rightarrow> py_error + (string \<rightharpoonup> py_val)" where
  "summary_items [] s = Inr s"
| "summary_items (item # comps) s =
     (case py_split '':'' item of
        [key, val] \<Rightarrow> summary_items comps (s(strip key \<mapsto> PyStr (strip val)))
      | _ \<Rightarrow> Inl ValueError)"

text \<open>The body of the loop over the lines (lines 318 to 332).\<close>

definition skipped :: "string \<Rightarrow> bool" where
  "skipped line = (startswith line ''='' \<or> startswith line ''-'' \<or> startswith line ''Status'')"

definition member_status_line :: "member_status_ret \<Rightarrow> string \<Rightarrow> py_error + member_status_ret"
where
  "member_status_line ret line =
     (if skipped line then Inr ret
      else
        case (if CHR ''/'' \<in> set line
              then summary_items (py_split ''/'' line) (summary ret)
              else Inr (summary ret)) of
          Inl e \<Rightarrow> Inl e
        | Inr s \<Rightarrow>
            let ret = ret\<lparr>summary := s\<rparr>;
                vals = split_ws line
            in if length vals = 4
               then Inr (ret\<lparr>membership := (membership ret)
                           (vals ! 3 \<mapsto> [''Status'' \<mapsto> vals ! 0, ''Ring'' \<mapsto> vals ! 1,
                                         ''Pending'' \<mapsto> vals ! 2])\<rparr>)
               else Inr ret)"

fun member_status_loop :: "string list \<Rightarrow> member_status_ret \<Rightarrow> py_error + member_status_ret"
where
  "member_status_loop [] ret = Inr ret"
| "member_status_loop (line # out) ret =
     (case member_status_line ret line of
        Inl e \<Rightarrow> Inl e
      | Inr ret' \<Rightarrow> member_status_loop out ret')"

definition member_status ::
  "executor \<Rightarrow> string list \<Rightarrow> (py_error + member_status_ret) \<times> string list" where
  "member_status ex log =
     (let cmd = ''riak-admin member-status'';
          (raw, log') = cmd_run ex cmd log
      in (member_status_loop (splitlines raw) member_status_init, log'))"

subsection \<open>status\<close>

fun status_loop :: "string list \<Rightarrow> (string \<rightharpoonup> string) list \<Rightarrow> (string \<rightharpoonup> string) list" where
  "status_loop [] ret = ret"
| "status_loop (line # out) ret =
     (let parts = py_split '' : '' line
      in if length parts = 2 then status_loop out (ret @ [[parts ! 0 \<mapsto> parts ! 1]])
         else status_loop out ret)"

definition status :: "executor \<Rightarrow> string list \<Rightarrow> (string \<rightharpoonup> string) list \<times> string list" where
  "status ex log =
     (let cmd = ''riak-admin status'';
          (raw, log') = cmd_run ex cmd log
      in (status_loop (py_split ''\<newline>'' raw) [], log'))"

subsection \<open>A stubbed executor\<close>

text \<open>
  An executor that refuses the commit until the plan has been looked at, and has nothing
  staged.
\<close>

definition commit_stub :: executor where
  "commit_stub log cmd =
     (if cmd = ''riak-admin cluster commit'' then ''You must verify the plan first''
      else ''There are no staged changes'')"

subsection \<open>The sample output of riak-admin member-status\<close>

text \<open>
  The node name is printed between single quotes; \<^term>\<open>example_node\<close> is the text
  \<^verbatim>\<open>'riak@127.0.0.1'\<close>, quotes included. The sample is six lines, the last without a line
  break.
\<close>

definition example_node :: string where
  "example_node = CHR 0x27 # ''riak@127.0.0.1'' @ [CHR 0x27]"

definition example_row :: string where
  "example_row = ''valid      25.0%     --      '' @ example_node"

definition example_summary_line :: string where
  "example_summary_line = ''Valid:1 / Leaving:0 / Exiting:0 / Joining:0 / Down:0''"

definition member_status_example :: string where
  "member_status_example =
     ''================================= Membership ==================\<newline>'' @
     ''Status     Ring    Pending    Node\<newline>'' @
     ''-------------------------------------------------------------\<newline>'' @
     example_row @ ''\<newline>'' @
     ''-------------------------------------------------------------\<newline>'' @
     example_summary_line"

section \<open>Properties\<close>

subsection \<open>Auxiliary facts about the string methods\<close>

lemma py_split_go_nonempty: "py_split_go sep cur s \<noteq> []"
  by (induction sep cur s rule: py_split_go.induct) auto

lemma py_split_nonempty: "py_split sep s \<noteq> []"
  by (simp add: py_split_def py_split_go_nonempty)

lemma normalized_lines_banner_only:
  assumes "\<forall>l \<in> set (py_split ''\<newline>'' raw). startswith l ''!!!!''"
  shows "normalized_lines raw = []"
proof -
  have "filter (\<lambda>line. \<not> startswith line ''!!!!'') (py_split ''\<newline>'' raw) = []"
    using assms by (simp add: filter_empty_conv)
  then show ?thesis by (simp add: normalized_lines_def)
qed

subsection \<open>The operations after validation, unfolded\<close>

lemma version_unfold:
  "version ex log =
     (case normalized_lines (ex log ''riak version'') of
        [] \<Rightarrow> Inl IndexError | m # _ \<Rightarrow> Inr (PyStr m),
      log @ [''riak version''])"
  by (simp add: version_def cmd_run_def Let_def)

lemma cluster_join_valid:
  "length (py_split ''@'' node) = 2 \<Longrightarrow>
   cluster_join ex node log =
     (case normalized_lines (ex log (''riak-admin cluster join '' @ node)) of
        [] \<Rightarrow> Inl IndexError
      | m # _ \<Rightarrow> if startswith m ''Success'' then Inr (PyBool True) else Inr (PyStr m),
      log @ [''riak-admin cluster join '' @ node])"
  by (simp add: cluster_join_def cmd_run_def Let_def)

lemma cluster_plan_unfold:
  "cluster_plan ex log =
     (case normalized_lines (ex log ''riak-admin cluster plan'') of
        [] \<Rightarrow> Inl IndexError
      | m # ms \<Rightarrow> if m = ''There are no staged changes'' then Inr PyNone
                  else Inr (PyList (m # ms)),
      log @ [''riak-admin cluster plan''])"
  by (simp add: cluster_plan_def cmd_run_def Let_def split: list.splits)

lemma cluster_clear_unfold:
  "cluster_clear ex log =
     (case normalized_lines (ex log ''riak-admin cluster clear'') of
        [] \<Rightarrow> Inl IndexError
      | m # _ \<Rightarrow> if m = ''Cleared staged cluster changes'' then Inr (PyBool True)
                 else Inr (PyStr m),
      log @ [''riak-admin cluster clear''])"
  by (simp add: cluster_clear_def cmd_run_def Let_def)

lemma cluster_commit_unfold:
  "cluster_commit ex log =
     (case normalized_lines (ex log ''riak-admin cluster commit'') of
        [] \<Rightarrow> (Inl IndexError, log @ [''riak-admin cluster commit''])
      | m # _ \<Rightarrow> if startswith m ''You must verify the plan''
                 then cluster_plan ex (log @ [''riak-admin cluster commit''])
                 else (Inr (PyStr m), log @ [''riak-admin cluster commit'']))"
  by (simp add: cluster_commit_def cmd_run_def Let_def)

lemma split_at_examples:
  "py_split ''@'' ''badnode'' = [''badnode'']"
  "py_split ''@'' ''a@b'' = [''a'', ''b'']"
  by (simp_all add: py_split_def)

lemma join_example_lines:
  "normalized_lines ''Attempting to join...\<newline>Success: joined'' = [''Success: joined'']"
  by (simp add: normalized_lines_def py_split_def startswith_def)

lemma plan_example_lines:
  "normalized_lines ''There are no staged changes'' = [''There are no staged changes'']"
  "normalized_lines ''!!!! crash\<newline>Attempting to restart\<newline>Staged Changes\<newline>join a@b''
     = [''Staged Changes'', ''join a@b'']"
  by (simp_all add: normalized_lines_def py_split_def startswith_def)

lemma commit_stub_lines:
  "normalized_lines (commit_stub log ''riak-admin cluster commit'')
     = [''You must verify the plan first'']"
  "normalized_lines (commit_stub log ''riak-admin cluster plan'')
     = [''There are no staged changes'']"
  "normalized_lines ''Cluster changes committed'' = [''Cluster changes committed'']"
  by (simp_all add: commit_stub_def normalized_lines_def py_split_def startswith_def)

subsection \<open>Validation of the node name in cluster_join\<close>

text \<open>
  C3. A node that does not split on \<^verbatim>\<open>"@"\<close> into exactly two parts makes \<^verbatim>\<open>cluster_join\<close>
  return \<^verbatim>\<open>False\<close> at once: the list of commands given to the executor is the one the call
  started with, so no command was built or run.
\<close>

theorem cluster_join_rejects_malformed_node:
  "length (py_split ''@'' node) \<noteq> 2 \<Longrightarrow> cluster_join ex node log = (Inr (PyBool False), log)"
  by (simp add: cluster_join_def)

theorem cluster_join_rejects_malformed_node_witness:
  "length (py_split ''@'' ''badnode'') \<noteq> 2 \<and>
   cluster_join (\<lambda>_ _. ''Success'') ''badnode'' [] = (Inr (PyBool False), [])"
proof -
  have h: "length (py_split ''@'' ''badnode'') \<noteq> 2" by (simp add: py_split_def)
  show ?thesis using h cluster_join_rejects_malformed_node [OF h] by simp
qed

subsection \<open>The normaliser on clean output\<close>

text \<open>
  C5. When no line of the raw output starts with \<^verbatim>\<open>"!!!!"\<close> and its first line does not start
  with \<^verbatim>\<open>"Attempting"\<close>, the normalised lines are the newline-split of the raw output: the
  same lines, in the same order.
\<close>

theorem normalized_lines_noop:
  assumes "\<forall>l \<in> set (py_split ''\<newline>'' raw). \<not> startswith l ''!!!!''"
    and "\<not> startswith (py_split ''\<newline>'' raw ! 0) ''Attempting''"
  shows "normalized_lines raw = py_split ''\<newline>'' raw"
proof -
  have "filter (\<lambda>line. \<not> startswith line ''!!!!'') (py_split ''\<newline>'' raw)
        = py_split ''\<newline>'' raw"
    using assms(1) by simp
  then show ?thesis using assms(2) by (simp add: normalized_lines_def)
qed

lemma split_version_example:
  "py_split ''\<newline>'' ''riak 1.4.2\<newline>ok'' = [''riak 1.4.2'', ''ok'']"
  by (simp add: py_split_def)

theorem normalized_lines_noop_witness:
  "py_split ''\<newline>'' ''riak 1.4.2\<newline>ok'' = [''riak 1.4.2'', ''ok''] \<and>
   \<not> startswith ''riak 1.4.2'' ''!!!!'' \<and> \<not> startswith ''ok'' ''!!!!'' \<and>
   \<not> startswith ''riak 1.4.2'' ''Attempting'' \<and>
   normalized_lines ''riak 1.4.2\<newline>ok'' = [''riak 1.4.2'', ''ok'']"
proof -
  have h1: "\<forall>l \<in> set (py_split ''\<newline>'' ''riak 1.4.2\<newline>ok''). \<not> startswith l ''!!!!''"
    by (simp add: split_version_example startswith_def)
  have h2: "\<not> startswith (py_split ''\<newline>'' ''riak 1.4.2\<newline>ok'' ! 0) ''Attempting''"
    by (simp add: split_version_example startswith_def)
  show ?thesis
    using h1 h2 normalized_lines_noop [OF h1 h2] by (simp add: split_version_example)
qed

subsection \<open>Validation of the node names in cluster_replace\<close>

text \<open>
  C1. \<^verbatim>\<open>cluster_replace\<close> returns \<^verbatim>\<open>False\<close> with no command run when both nodes fail the
  \<^verbatim>\<open>"@"\<close> check, and only then; when exactly one of the two fails, the command
  \<^verbatim>\<open>riak-admin cluster replace <node1> <node2>\<close> is built and given to the executor.
\<close>

theorem cluster_replace_rejects_only_both_malformed:
  "(length (py_split ''@'' node1) \<noteq> 2 \<and> length (py_split ''@'' node2) \<noteq> 2 \<longrightarrow>
      cluster_replace ex node1 node2 force log = (Inr (PyBool False), log)) \<and>
   (cluster_replace ex node1 node2 force log = (Inr (PyBool False), log) \<longrightarrow>
      length (py_split ''@'' node1) \<noteq> 2 \<and> length (py_split ''@'' node2) \<noteq> 2) \<and>
   ((length (py_split ''@'' node1) \<noteq> 2) \<noteq> (length (py_split ''@'' node2) \<noteq> 2) \<longrightarrow>
      snd (cluster_replace ex node1 node2 force log) =
        log @ [''riak-admin cluster replace '' @ node1 @ '' '' @ node2])"
  by (simp add: cluster_replace_def cmd_run_def Let_def)

theorem cluster_replace_rejects_only_both_malformed_witness:
  "cluster_replace (\<lambda>_ _. ''Success'') ''badnode'' ''badnode'' False [] = (Inr (PyBool False), []) \<and>
   (length (py_split ''@'' ''badnode'') \<noteq> 2) \<noteq> (length (py_split ''@'' ''a@b'') \<noteq> 2) \<and>
   snd (cluster_replace (\<lambda>_ _. ''Success'') ''badnode'' ''a@b'' False []) =
     [''riak-admin cluster replace badnode a@b'']"
  using cluster_replace_rejects_only_both_malformed
          [of "''badnode''" "''badnode''" "\<lambda>_ _. ''Success''" False "[]"]
        cluster_replace_rejects_only_both_malformed
          [of "''badnode''" "''a@b''" "\<lambda>_ _. ''Success''" False "[]"]
  by (simp add: split_at_examples)

subsection \<open>The result of cluster_join\<close>

text \<open>
  C4. For a node that passes the \<^verbatim>\<open>"@"\<close> check, \<^verbatim>\<open>cluster_join\<close> runs
  \<^verbatim>\<open>riak-admin cluster join <node>\<close> and returns \<^verbatim>\<open>True\<close> exactly when there is a first
  normalised line and it starts with \<^verbatim>\<open>"Success"\<close>; when the first normalised line does not
  start with \<^verbatim>\<open>"Success"\<close>, that line is returned as it is. On the output
  \<^verbatim>\<open>"Attempting to join...\nSuccess: joined"\<close> the result is \<^verbatim>\<open>True\<close>.
\<close>

theorem cluster_join_success_or_line:
  assumes "length (py_split ''@'' node) = 2"
    and "normalized_lines (ex log (''riak-admin cluster join '' @ node)) = msgs"
  shows "(fst (cluster_join ex node log) = Inr (PyBool True)
            \<longleftrightarrow> msgs \<noteq> [] \<and> startswith (msgs ! 0) ''Success'') \<and>
         (msgs \<noteq> [] \<and> \<not> startswith (msgs ! 0) ''Success''
            \<longrightarrow> fst (cluster_join ex node log) = Inr (PyStr (msgs ! 0))) \<and>
         snd (cluster_join ex node log) = log @ [''riak-admin cluster join '' @ node] \<and>
         fst (cluster_join (\<lambda>_ _. ''Attempting to join...\<newline>Success: joined'') ''a@b'' log)
           = Inr (PyBool True)"
proof -
  have ex: "length (py_split ''@'' ''a@b'') = 2" by (simp add: py_split_def)
  have "fst (cluster_join (\<lambda>_ _. ''Attempting to join...\<newline>Success: joined'') ''a@b'' log)
           = Inr (PyBool True)"
    by (simp add: cluster_join_valid [OF ex] join_example_lines startswith_def)
  moreover have "fst (cluster_join ex node log) = Inr (PyBool True)
            \<longleftrightarrow> msgs \<noteq> [] \<and> startswith (msgs ! 0) ''Success''"
    using assms(2) by (cases msgs) (auto simp: cluster_join_valid [OF assms(1)])
  moreover have "msgs \<noteq> [] \<and> \<not> startswith (msgs ! 0) ''Success''
            \<longrightarrow> fst (cluster_join ex node log) = Inr (PyStr (msgs ! 0))"
    using assms(2) by (cases msgs) (auto simp: cluster_join_valid [OF assms(1)])
  moreover have "snd (cluster_join ex node log) = log @ [''riak-admin cluster join '' @ node]"
    by (simp add: cluster_join_valid [OF assms(1)])
  ultimately show ?thesis by blast
qed

theorem cluster_join_success_or_line_witness:
  "length (py_split ''@'' ''a@b'') = 2 \<and>
   fst (cluster_join (\<lambda>_ _. ''Attempting to join...\<newline>Success: joined'') ''a@b'' [])
     = Inr (PyBool True) \<and>
   fst (cluster_join (\<lambda>_ _. ''Attempting to join...\<newline>Node is already a member'') ''a@b'' [])
     = Inr (PyStr ''Node is already a member'')"
proof -
  have h: "length (py_split ''@'' ''a@b'') = 2" by (simp add: py_split_def)
  have l2: "normalized_lines ''Attempting to join...\<newline>Node is already a member''
              = [''Node is already a member'']"
    by (simp add: normalized_lines_def py_split_def startswith_def)
  show ?thesis
    using h
      cluster_join_success_or_line [OF h refl,
        of "\<lambda>_ _. ''Attempting to join...\<newline>Success: joined''" "[]"]
      cluster_join_success_or_line [OF h refl,
        of "\<lambda>_ _. ''Attempting to join...\<newline>Node is already a member''" "[]"]
    by (simp add: join_example_lines l2 startswith_def)
qed

subsection \<open>An output of crash banners only\<close>

text \<open>
  C6. When every line of the output begins with \<^verbatim>\<open>"!!!!"\<close>, no normalised line is left, and
  the access \<^verbatim>\<open>msgs[0]\<close> of \<^verbatim>\<open>version\<close>, and of \<^verbatim>\<open>cluster_join\<close>, \<^verbatim>\<open>cluster_leave\<close>,
  \<^verbatim>\<open>cluster_replace\<close>, \<^verbatim>\<open>cluster_plan\<close>, \<^verbatim>\<open>cluster_clear\<close> and \<^verbatim>\<open>cluster_commit\<close> once
  their validation has passed, raises \<^verbatim>\<open>IndexError\<close>: none of them returns a value.
\<close>

theorem first_line_access_out_of_range:
  assumes banner: "\<forall>log cmd. \<forall>l \<in> set (py_split ''\<newline>'' (ex log cmd)). startswith l ''!!!!''"
    and node: "length (py_split ''@'' node) = 2"
    and leave: "case leave_node of None \<Rightarrow> True | Some n \<Rightarrow> length (py_split ''@'' n) = 2"
    and repl: "length (py_split ''@'' node1) = 2 \<or> length (py_split ''@'' node2) = 2"
  shows "fst (version ex log) = Inl IndexError \<and>
         fst (cluster_join ex node log) = Inl IndexError \<and>
         fst (cluster_leave ex leave_node force log) = Inl IndexError \<and>
         fst (cluster_replace ex node1 node2 force log) = Inl IndexError \<and>
         fst (cluster_plan ex log) = Inl IndexError \<and>
         fst (cluster_clear ex log) = Inl IndexError \<and>
         fst (cluster_commit ex log) = Inl IndexError"
proof -
  have empty: "normalized_lines (ex l c) = []" for l c
    using banner by (simp add: normalized_lines_banner_only)
  have "fst (version ex log) = Inl IndexError"
    by (simp add: version_unfold empty)
  moreover have "fst (cluster_join ex node log) = Inl IndexError"
    by (simp add: cluster_join_valid [OF node] empty)
  moreover have "fst (cluster_leave ex leave_node force log) = Inl IndexError"
    using leave by (cases leave_node) (simp_all add: cluster_leave_def cmd_run_def Let_def empty)
  moreover have "fst (cluster_replace ex node1 node2 force log) = Inl IndexError"
    using repl by (auto simp: cluster_replace_def cmd_run_def Let_def empty)
  moreover have "fst (cluster_plan ex log) = Inl IndexError"
    by (simp add: cluster_plan_unfold empty)
  moreover have "fst (cluster_clear ex log) = Inl IndexError"
    by (simp add: cluster_clear_unfold empty)
  moreover have "fst (cluster_commit ex log) = Inl IndexError"
    by (simp add: cluster_commit_unfold empty)
  ultimately show ?thesis by blast
qed

theorem first_line_access_out_of_range_witness:
  "py_split ''\<newline>'' ''!!!! a\<newline>!!!! b'' = [''!!!! a'', ''!!!! b''] \<and>
   startswith ''!!!! a'' ''!!!!'' \<and> startswith ''!!!! b'' ''!!!!'' \<and>
   fst (version (\<lambda>_ _. ''!!!! a\<newline>!!!! b'') []) = Inl IndexError \<and>
   fst (cluster_join (\<lambda>_ _. ''!!!! a\<newline>!!!! b'') ''a@b'' []) = Inl IndexError \<and>
   fst (cluster_leave (\<lambda>_ _. ''!!!! a\<newline>!!!! b'') None False []) = Inl IndexError \<and>
   fst (cluster_replace (\<lambda>_ _. ''!!!! a\<newline>!!!! b'') ''a@b'' ''c@d'' False []) = Inl IndexError \<and>
   fst (cluster_plan (\<lambda>_ _. ''!!!! a\<newline>!!!! b'') []) = Inl IndexError \<and>
   fst (cluster_clear (\<lambda>_ _. ''!!!! a\<newline>!!!! b'') []) = Inl IndexError \<and>
   fst (cluster_commit (\<lambda>_ _. ''!!!! a\<newline>!!!! b'') []) = Inl IndexError"
proof -
  have h: "\<forall>l \<in> set (py_split ''\<newline>'' ''!!!! a\<newline>!!!! b''). startswith l ''!!!!''"
    by (simp add: py_split_def startswith_def)
  have n: "length (py_split ''@'' ''a@b'') = 2" by (simp add: py_split_def)
  show ?thesis
    using h first_line_access_out_of_range
            [of "\<lambda>_ _. ''!!!! a\<newline>!!!! b''" "''a@b''" None "''a@b''" "''c@d''" "[]" False]
          n
    by (simp add: py_split_def startswith_def)
qed

subsection \<open>The result of cluster_plan\<close>

text \<open>
  C7. When the first normalised line is exactly \<^verbatim>\<open>"There are no staged changes"\<close>,
  \<^verbatim>\<open>cluster_plan\<close> returns \<^verbatim>\<open>None\<close>; for any other output with at least one normalised line
  it returns the whole list of normalised lines, the first one included, in order.
\<close>

theorem cluster_plan_none_or_lines:
  assumes "normalized_lines (ex log ''riak-admin cluster plan'') = msgs"
    and "msgs \<noteq> []"
  shows "(msgs ! 0 = ''There are no staged changes'' \<longrightarrow> fst (cluster_plan ex log) = Inr PyNone) \<and>
         (msgs ! 0 \<noteq> ''There are no staged changes''
            \<longrightarrow> fst (cluster_plan ex log) = Inr (PyList msgs)) \<and>
         fst (cluster_plan (\<lambda>_ _. ''There are no staged changes'') log) = Inr PyNone"
proof -
  have "normalized_lines ''There are no staged changes'' = [''There are no staged changes'']"
    by (simp add: normalized_lines_def py_split_def startswith_def)
  then have "fst (cluster_plan (\<lambda>_ _. ''There are no staged changes'') log) = Inr PyNone"
    by (simp add: cluster_plan_unfold)
  moreover have "msgs ! 0 = ''There are no staged changes'' \<longrightarrow> fst (cluster_plan ex log) = Inr PyNone"
    using assms by (cases msgs) (auto simp: cluster_plan_unfold)
  moreover have "msgs ! 0 \<noteq> ''There are no staged changes''
            \<longrightarrow> fst (cluster_plan ex log) = Inr (PyList msgs)"
    using assms by (cases msgs) (auto simp: cluster_plan_unfold)
  ultimately show ?thesis by blast
qed

theorem cluster_plan_none_or_lines_witness:
  "fst (cluster_plan (\<lambda>_ _. ''There are no staged changes'') []) = Inr PyNone \<and>
   fst (cluster_plan
          (\<lambda>_ _. ''!!!! crash\<newline>Attempting to restart\<newline>Staged Changes\<newline>join a@b'') [])
     = Inr (PyList [''Staged Changes'', ''join a@b''])"
  using cluster_plan_none_or_lines [OF refl, of "\<lambda>_ _. ''There are no staged changes''" "[]"]
    cluster_plan_none_or_lines [OF refl,
      of "\<lambda>_ _. ''!!!! crash\<newline>Attempting to restart\<newline>Staged Changes\<newline>join a@b''" "[]"]
  by (simp add: plan_example_lines)

subsection \<open>The result of cluster_commit\<close>

text \<open>
  C8. When the first normalised line of the commit's output starts with
  \<^verbatim>\<open>"You must verify the plan"\<close>, \<^verbatim>\<open>cluster_commit\<close> calls \<^verbatim>\<open>cluster_plan\<close>, which runs a
  second command, and returns what \<^verbatim>\<open>cluster_plan\<close> returns; for any other first normalised
  line it returns that line as it is, after the one command.
\<close>

theorem cluster_commit_plan_or_line:
  assumes "normalized_lines (ex log ''riak-admin cluster commit'') = msgs"
    and "msgs \<noteq> []"
  shows "(startswith (msgs ! 0) ''You must verify the plan'' \<longrightarrow>
            cluster_commit ex log = cluster_plan ex (log @ [''riak-admin cluster commit'']) \<and>
            snd (cluster_commit ex log)
              = log @ [''riak-admin cluster commit'', ''riak-admin cluster plan'']) \<and>
         (\<not> startswith (msgs ! 0) ''You must verify the plan'' \<longrightarrow>
            cluster_commit ex log = (Inr (PyStr (msgs ! 0)), log @ [''riak-admin cluster commit'']))"
proof (cases msgs)
  case Nil
  with assms(2) show ?thesis by simp
next
  case (Cons m ms)
  have "snd (cluster_plan ex (log @ [''riak-admin cluster commit'']))
          = log @ [''riak-admin cluster commit'', ''riak-admin cluster plan'']"
    by (simp add: cluster_plan_unfold)
  with Cons assms(1) show ?thesis
    by (simp add: cluster_commit_unfold)
qed

theorem cluster_commit_plan_or_line_witness:
  "cluster_commit commit_stub []
     = (Inr PyNone, [''riak-admin cluster commit'', ''riak-admin cluster plan'']) \<and>
   cluster_commit (\<lambda>_ _. ''Cluster changes committed'') []
     = (Inr (PyStr ''Cluster changes committed''), [''riak-admin cluster commit''])"
proof -
  have p: "cluster_plan commit_stub [''riak-admin cluster commit'']
             = (Inr PyNone, [''riak-admin cluster commit'', ''riak-admin cluster plan''])"
    by (simp add: cluster_plan_unfold commit_stub_lines)
  show ?thesis
    using cluster_commit_plan_or_line [OF refl, of commit_stub "[]"]
      cluster_commit_plan_or_line [OF refl, of "\<lambda>_ _. ''Cluster changes committed''" "[]"]
    by (simp add: commit_stub_lines p startswith_def)
qed

subsection \<open>Facts about splitting on a separator\<close>

text \<open>
  A result of one piece is the string itself, a result of two pieces \<open>[k, v]\<close> comes from
  \<open>k @ sep @ v\<close>; the separator occurs in the string exactly when there are at least two
  pieces; splitting on one character gives one piece more than the character occurs.
\<close>

lemma py_split_go_single: "py_split_go sep cur s = [v] \<Longrightarrow> v = cur @ s"
proof (induction sep cur s rule: py_split_go.induct)
  case (1 sep cur)
  then show ?case by simp
next
  case (2 sep cur c cs)
  show ?case
  proof (cases "sep \<noteq> [] \<and> prefix sep (c # cs)")
    case True
    with "2.prems" have "py_split_go sep [] (drop (length sep) (c # cs)) = []" by simp
    then show ?thesis by (simp add: py_split_go_nonempty)
  next
    case False
    with "2.prems" have "py_split_go sep (cur @ [c]) cs = [v]" by auto
    with "2.IH"(2) False show ?thesis by auto
  qed
qed

lemma py_split_go_pair: "py_split_go sep cur s = [k, v] \<Longrightarrow> cur @ s = k @ sep @ v"
proof (induction sep cur s rule: py_split_go.induct)
  case (1 sep cur)
  then show ?case by simp
next
  case (2 sep cur c cs)
  show ?case
  proof (cases "sep \<noteq> [] \<and> prefix sep (c # cs)")
    case True
    with "2.prems" have k: "k = cur"
      and "py_split_go sep [] (drop (length sep) (c # cs)) = [v]" by simp_all
    then have v: "v = drop (length sep) (c # cs)" by (auto dest: py_split_go_single)
    from True obtain r where r: "c # cs = sep @ r" by (auto simp: prefix_def)
    then have "drop (length sep) (c # cs) = r" by simp
    with k v r show ?thesis by simp
  next
    case False
    with "2.prems" have "py_split_go sep (cur @ [c]) cs = [k, v]" by auto
    with "2.IH"(2) False show ?thesis by auto
  qed
qed

lemma py_split_pair: "py_split sep s = [k, v] \<Longrightarrow> s = k @ sep @ v"
  using py_split_go_pair [of sep "[]" s k v] by (simp add: py_split_def)

lemma py_split_go_no_sep: "\<not> sublist sep s \<Longrightarrow> py_split_go sep cur s = [cur @ s]"
proof (induction sep cur s rule: py_split_go.induct)
  case (1 sep cur)
  then show ?case by simp
next
  case (2 sep cur c cs)
  from "2.prems" have np: "\<not> prefix sep (c # cs)" and ns: "\<not> sublist sep cs"
    by (simp_all add: sublist_Cons_right)
  with "2.IH"(2) show ?case by simp
qed

lemma py_split_no_sep: "\<not> sublist sep s \<Longrightarrow> py_split sep s = [s]"
  by (simp add: py_split_def py_split_go_no_sep)

lemma py_split_go_sep: "sep \<noteq> [] \<Longrightarrow> sublist sep s \<Longrightarrow> 2 \<le> length (py_split_go sep cur s)"
proof (induction sep cur s rule: py_split_go.induct)
  case (1 sep cur)
  then show ?case by simp
next
  case (2 sep cur c cs)
  show ?case
  proof (cases "prefix sep (c # cs)")
    case True
    have "1 \<le> length (py_split_go sep [] (drop (length sep) (c # cs)))"
      using py_split_go_nonempty [of sep "[]" "drop (length sep) (c # cs)"]
      by (cases "py_split_go sep [] (drop (length sep) (c # cs))") simp_all
    with True "2.prems"(1) show ?thesis by simp
  next
    case False
    with "2.prems" have "sublist sep cs" by (simp add: sublist_Cons_right)
    with "2.IH"(2) "2.prems"(1) False show ?thesis by simp
  qed
qed

lemma py_split_char_length: "length (py_split_go [d] cur s) = Suc (count_list s d)"
  by (induction "[d]" cur s rule: py_split_go.induct) auto

lemma py_split_colon_length: "length (py_split '':'' item) = Suc (count_list item CHR '':'')"
  by (simp add: py_split_def py_split_char_length)

subsection \<open>The list built by status\<close>

lemma status_loop_eq:
  "status_loop out ret =
     ret @ map (\<lambda>line. [py_split '' : '' line ! 0 \<mapsto> py_split '' : '' line ! 1])
             (filter (\<lambda>line. length (py_split '' : '' line) = 2) out)"
  by (induction out arbitrary: ret) (simp_all add: Let_def)

lemma status_unfold:
  "status ex log =
     (status_loop (py_split ''\<newline>'' (ex log ''riak-admin status'')) [],
      log @ [''riak-admin status''])"
  by (simp add: status_def cmd_run_def Let_def)

lemma status_examples:
  "py_split '' : '' ''vnode_gets : 0'' = [''vnode_gets'', ''0'']"
  "py_split '' : '' ''a : b : c'' = [''a'', ''b'', ''c'']"
  "py_split '' : '' ''ring_ready:true'' = [''ring_ready:true'']"
  "py_split ''\<newline>'' ''vnode_gets : 0'' = [''vnode_gets : 0'']"
  "py_split ''\<newline>'' ''a : b : c'' = [''a : b : c'']"
  "py_split ''\<newline>'' ''vnode_gets : 0\<newline>ring_ready:true\<newline>a : b : c''
     = [''vnode_gets : 0'', ''ring_ready:true'', ''a : b : c'']"
  by (simp_all add: py_split_def)

text \<open>
  The line \<^verbatim>\<open>a : b : c\<close> contains the separator \<^verbatim>\<open>" : "\<close>, and \<^verbatim>\<open>status\<close> returns no element
  for it: the line splits into three parts, and line 388 keeps a line of exactly two.
\<close>

theorem status_element_missing_counterexample:
  "sublist '' : '' ''a : b : c'' \<and> fst (status (\<lambda>_ _. ''a : b : c'') []) = []"
  by (simp add: status_unfold status_examples sublist_code)

text \<open>
  C9, amended. \<^verbatim>\<open>status\<close> returns, in line order, one single-key mapping \<open>{key: value}\<close> for
  each raw line whose split on \<^verbatim>\<open>" : "\<close> has exactly two parts \<open>[key, value]\<close>, so that the
  line is \<open>key\<close>, the separator, \<open>value\<close>. A line without the separator has one part and
  produces no element; a line with the separator has at least two parts, and produces no
  element either when it has more than two. The line \<^verbatim>\<open>vnode_gets : 0\<close> yields the one element
  \<open>{vnode_gets: 0}\<close>.
\<close>

theorem status_two_part_lines:
  assumes "ex log ''riak-admin status'' = raw"
  shows "fst (status ex log) =
           map (\<lambda>line. [py_split '' : '' line ! 0 \<mapsto> py_split '' : '' line ! 1])
             (filter (\<lambda>line. length (py_split '' : '' line) = 2) (py_split ''\<newline>'' raw)) \<and>
         (py_split '' : '' line = [k, v] \<longrightarrow> line = k @ '' : '' @ v) \<and>
         (\<not> sublist '' : '' line \<longrightarrow> length (py_split '' : '' line) = 1) \<and>
         (sublist '' : '' line \<longrightarrow> 2 \<le> length (py_split '' : '' line)) \<and>
         fst (status (\<lambda>_ _. ''vnode_gets : 0'') log) = [[''vnode_gets'' \<mapsto> ''0'']]"
proof -
  have "fst (status ex log) =
           map (\<lambda>line. [py_split '' : '' line ! 0 \<mapsto> py_split '' : '' line ! 1])
             (filter (\<lambda>line. length (py_split '' : '' line) = 2) (py_split ''\<newline>'' raw))"
    using assms by (simp add: status_unfold status_loop_eq)
  moreover have "py_split '' : '' line = [k, v] \<longrightarrow> line = k @ '' : '' @ v"
    using py_split_pair [of "'' : ''" line k v] by blast
  moreover have "\<not> sublist '' : '' line \<longrightarrow> length (py_split '' : '' line) = 1"
    by (simp add: py_split_no_sep)
  moreover have "sublist '' : '' line \<longrightarrow> 2 \<le> length (py_split '' : '' line)"
    using py_split_go_sep [of "'' : ''" line "[]"] by (simp add: py_split_def)
  moreover have "fst (status (\<lambda>_ _. ''vnode_gets : 0'') log) = [[''vnode_gets'' \<mapsto> ''0'']]"
    by (simp add: status_unfold status_examples del: fun_upd_apply)
  ultimately show ?thesis by blast
qed

theorem status_two_part_lines_witness:
  "fst (status (\<lambda>_ _. ''vnode_gets : 0\<newline>ring_ready:true\<newline>a : b : c'') [])
     = [[''vnode_gets'' \<mapsto> ''0'']] \<and>
   ''vnode_gets : 0'' = ''vnode_gets'' @ '' : '' @ ''0'' \<and>
   \<not> sublist '' : '' ''ring_ready:true'' \<and> length (py_split '' : '' ''ring_ready:true'') = 1 \<and>
   sublist '' : '' ''a : b : c'' \<and> length (py_split '' : '' ''a : b : c'') = 3"
proof -
  have s: "\<not> sublist '' : '' ''ring_ready:true''" "sublist '' : '' ''a : b : c''"
    by (simp_all add: sublist_code)
  show ?thesis
    using s
      status_two_part_lines [OF refl,
        of "\<lambda>_ _. ''vnode_gets : 0\<newline>ring_ready:true\<newline>a : b : c''" "[]"
           "''vnode_gets : 0''" "''vnode_gets''" "''0''"]
      status_two_part_lines [OF refl,
        of "\<lambda>_ _. ''vnode_gets : 0\<newline>ring_ready:true\<newline>a : b : c''" "[]"
           "''ring_ready:true''" "[]" "[]"]
    by (simp add: status_examples del: fun_upd_apply)
qed

subsection \<open>The loop of member_status\<close>

lemma summary_items_ok:
  "\<forall>item \<in> set comps. length (py_split '':'' item) = 2 \<Longrightarrow>
   summary_items comps s =
     Inr (fold (\<lambda>item s. s(strip (py_split '':'' item ! 0) \<mapsto> PyStr (strip (py_split '':'' item ! 1))))
            comps s)"
proof (induction comps arbitrary: s)
  case Nil
  show ?case by simp
next
  case (Cons item comps)
  from Cons.prems have "length (py_split '':'' item) = 2" by simp
  then obtain key val where kv: "py_split '':'' item = [key, val]"
    by (auto simp: length_Suc_conv numeral_2_eq_2)
  from Cons.prems have "\<forall>item \<in> set comps. length (py_split '':'' item) = 2" by simp
  from Cons.IH [OF this, of "s(strip key \<mapsto> PyStr (strip val))"] kv show ?case
    by (simp del: fun_upd_apply)
qed

lemma summary_items_bad:
  "\<exists>item \<in> set comps. length (py_split '':'' item) \<noteq> 2 \<Longrightarrow>
   summary_items comps s = Inl ValueError"
proof (induction comps arbitrary: s)
  case Nil
  then show ?case by simp
next
  case (Cons item comps)
  show ?case
  proof (cases "length (py_split '':'' item) = 2")
    case True
    then obtain key val where kv: "py_split '':'' item = [key, val]"
      by (auto simp: length_Suc_conv numeral_2_eq_2)
    from True Cons.prems have "\<exists>item \<in> set comps. length (py_split '':'' item) \<noteq> 2" by auto
    from Cons.IH [OF this] kv show ?thesis by simp
  next
    case False
    then show ?thesis by (auto split: list.splits)
  qed
qed

lemma member_status_line_skipped: "skipped line \<Longrightarrow> member_status_line ret line = Inr ret"
  by (simp add: member_status_line_def)

lemma member_status_line_bad:
  assumes "\<not> skipped line" and "CHR ''/'' \<in> set line"
    and "\<exists>item \<in> set (py_split ''/'' line). length (py_split '':'' item) \<noteq> 2"
  shows "member_status_line ret line = Inl ValueError"
  using assms(1,2) summary_items_bad [OF assms(3)] by (simp add: member_status_line_def)

lemma member_status_line_ok:
  assumes "\<not> skipped line \<and> CHR ''/'' \<in> set line \<longrightarrow>
             (\<forall>item \<in> set (py_split ''/'' line). length (py_split '':'' item) = 2)"
  shows "\<exists>ret'. member_status_line ret line = Inr ret'"
proof (cases "\<not> skipped line \<and> CHR ''/'' \<in> set line")
  case True
  with assms have "\<forall>item \<in> set (py_split ''/'' line). length (py_split '':'' item) = 2" by simp
  from summary_items_ok [OF this] True show ?thesis
    by (simp add: member_status_line_def Let_def)
next
  case False
  then show ?thesis by (auto simp: member_status_line_def Let_def)
qed

lemma member_status_loop_ok:
  "\<forall>line \<in> set out. \<not> skipped line \<and> CHR ''/'' \<in> set line \<longrightarrow>
      (\<forall>item \<in> set (py_split ''/'' line). length (py_split '':'' item) = 2) \<Longrightarrow>
   \<exists>r. member_status_loop out ret = Inr r"
proof (induction out arbitrary: ret)
  case Nil
  show ?case by simp
next
  case (Cons line out)
  from Cons.prems obtain ret' where "member_status_line ret line = Inr ret'"
    using member_status_line_ok [of line ret] by auto
  moreover from Cons.prems Cons.IH [of ret'] have "\<exists>r. member_status_loop out ret' = Inr r"
    by simp
  ultimately show ?case by simp
qed

lemma member_status_loop_bad:
  "\<exists>line \<in> set out. \<not> skipped line \<and> CHR ''/'' \<in> set line \<and>
      (\<exists>item \<in> set (py_split ''/'' line). length (py_split '':'' item) \<noteq> 2) \<Longrightarrow>
   member_status_loop out ret = Inl ValueError"
proof (induction out arbitrary: ret)
  case Nil
  then show ?case by simp
next
  case (Cons line out)
  show ?case
  proof (cases "\<not> skipped line \<and> CHR ''/'' \<in> set line \<and>
      (\<exists>item \<in> set (py_split ''/'' line). length (py_split '':'' item) \<noteq> 2)")
    case True
    then show ?thesis by (simp add: member_status_line_bad)
  next
    case False
    then obtain ret' where r: "member_status_line ret line = Inr ret'"
      using member_status_line_ok [of line ret] by auto
    from False Cons.prems have "\<exists>line \<in> set out. \<not> skipped line \<and> CHR ''/'' \<in> set line \<and>
      (\<exists>item \<in> set (py_split ''/'' line). length (py_split '':'' item) \<noteq> 2)" by auto
    from Cons.IH [OF this] r show ?thesis by simp
  qed
qed

lemma member_status_unfold:
  "member_status ex log =
     (member_status_loop (splitlines (ex log ''riak-admin member-status'')) member_status_init,
      log @ [''riak-admin member-status''])"
  by (simp add: member_status_def cmd_run_def Let_def)

lemma member_status_line_slash:
  assumes "\<not> skipped line" and "CHR ''/'' \<in> set line"
    and "\<forall>item \<in> set (py_split ''/'' line). length (py_split '':'' item) = 2"
  shows "\<exists>ret'. member_status_line ret line = Inr ret' \<and>
           summary ret' =
             fold (\<lambda>item s. s(strip (py_split '':'' item ! 0)
                                 \<mapsto> PyStr (strip (py_split '':'' item ! 1))))
               (py_split ''/'' line) (summary ret)"
  using assms(1,2) summary_items_ok [OF assms(3), of "summary ret"]
  by (simp add: member_status_line_def Let_def del: fun_upd_apply)

lemma member_status_line_row:
  assumes "\<not> skipped line" and "member_status_line ret line = Inr ret'"
    and "split_ws line = [a, b, c, d]"
  shows "membership ret' =
           (membership ret)(d \<mapsto> [''Status'' \<mapsto> a, ''Ring'' \<mapsto> b, ''Pending'' \<mapsto> c])"
  using assms
  by (auto simp add: member_status_line_def Let_def simp del: fun_upd_apply
        split: if_splits sum.splits)

lemma member_status_line_no_slash:
  assumes "CHR ''/'' \<notin> set line" and "member_status_line ret line = Inr ret'"
  shows "summary ret' = summary ret"
  using assms
  by (auto simp add: member_status_line_def Let_def simp del: fun_upd_apply
        split: if_splits sum.splits)

lemma member_status_line_no_row:
  assumes "length (split_ws line) \<noteq> 4" and "member_status_line ret line = Inr ret'"
  shows "membership ret' = membership ret"
  using assms
  by (auto simp add: member_status_line_def Let_def simp del: fun_upd_apply
        split: if_splits sum.splits)

subsection \<open>member_status on the sample output\<close>

lemma example_lines:
  "splitlines member_status_example =
     [''================================= Membership =================='',
      ''Status     Ring    Pending    Node'',
      ''-------------------------------------------------------------'',
      example_row,
      ''-------------------------------------------------------------'',
      example_summary_line]"
  by (simp add: member_status_example_def splitlines_def example_node_def example_row_def
        example_summary_line_def)

lemma example_row_tokens:
  "split_ws example_row = [''valid'', ''25.0%'', ''--'', example_node]"
  by (simp add: split_ws_def isspace_def example_node_def example_row_def)

lemma example_summary_tokens: "length (split_ws example_summary_line) = 9"
  by (simp add: split_ws_def isspace_def example_summary_line_def)

lemma example_summary_items:
  "py_split ''/'' example_summary_line
     = [''Valid:1 '', '' Leaving:0 '', '' Exiting:0 '', '' Joining:0 '', '' Down:0'']"
  by (simp add: py_split_def example_summary_line_def)

lemma example_items_split:
  "py_split '':'' ''Valid:1 '' = [''Valid'', ''1 '']"
  "py_split '':'' '' Leaving:0 '' = ['' Leaving'', ''0 '']"
  "py_split '':'' '' Exiting:0 '' = ['' Exiting'', ''0 '']"
  "py_split '':'' '' Joining:0 '' = ['' Joining'', ''0 '']"
  "py_split '':'' '' Down:0'' = ['' Down'', ''0'']"
  by (simp_all add: py_split_def)

lemma example_strips:
  "strip ''Valid'' = ''Valid''" "strip ''1 '' = ''1''"
  "strip '' Leaving'' = ''Leaving''" "strip ''0 '' = ''0''"
  "strip '' Exiting'' = ''Exiting''"
  "strip '' Joining'' = ''Joining''"
  "strip '' Down'' = ''Down''" "strip ''0'' = ''0''"
  by (simp_all add: strip_def isspace_def)

lemma example_summary:
  "summary_items (py_split ''/'' example_summary_line) (summary member_status_init)
   = Inr [''Valid'' \<mapsto> PyStr ''1'', ''Leaving'' \<mapsto> PyStr ''0'', ''Exiting'' \<mapsto> PyStr ''0'',
          ''Joining'' \<mapsto> PyStr ''0'', ''Down'' \<mapsto> PyStr ''0'']"
  by (auto simp add: example_summary_items example_items_split example_strips
        member_status_init_def fun_eq_iff)

lemma example_skipped:
  "skipped ''================================= Membership ==================''"
  "skipped ''Status     Ring    Pending    Node''"
  "skipped ''-------------------------------------------------------------''"
  "\<not> skipped example_row"
  "\<not> skipped example_summary_line"
  by (simp_all add: skipped_def startswith_def example_row_def example_summary_line_def)

lemma example_slash:
  "CHR ''/'' \<notin> set example_row"
  "CHR ''/'' \<in> set example_summary_line"
  by (simp_all add: example_node_def example_row_def example_summary_line_def)

lemma example_row_step:
  "member_status_line member_status_init example_row
     = Inr (member_status_init\<lparr>membership :=
              [example_node \<mapsto> [''Status'' \<mapsto> ''valid'', ''Ring'' \<mapsto> ''25.0%'',
                                 ''Pending'' \<mapsto> ''--'']]\<rparr>)"
  unfolding member_status_line_def
  by (simp add: example_skipped example_slash example_row_tokens member_status_init_def
        del: fun_upd_apply)

lemma example_summary_step:
  "member_status_line (member_status_init\<lparr>membership := m\<rparr>) example_summary_line
   = Inr \<lparr>membership = m,
          summary = [''Valid'' \<mapsto> PyStr ''1'', ''Leaving'' \<mapsto> PyStr ''0'',
                     ''Exiting'' \<mapsto> PyStr ''0'', ''Joining'' \<mapsto> PyStr ''0'',
                     ''Down'' \<mapsto> PyStr ''0'']\<rparr>"
proof -
  have s: "summary (member_status_init\<lparr>membership := m\<rparr>) = summary member_status_init"
    by simp
  show ?thesis
    unfolding member_status_line_def s example_summary
    by (simp add: example_skipped example_slash example_summary_tokens member_status_init_def
          del: fun_upd_apply)
qed

lemma example_result:
  "member_status_loop (splitlines member_status_example) member_status_init
   = Inr \<lparr>membership = [example_node \<mapsto> [''Status'' \<mapsto> ''valid'', ''Ring'' \<mapsto> ''25.0%'',
                                            ''Pending'' \<mapsto> ''--'']],
          summary = [''Valid'' \<mapsto> PyStr ''1'', ''Leaving'' \<mapsto> PyStr ''0'',
                     ''Exiting'' \<mapsto> PyStr ''0'', ''Joining'' \<mapsto> PyStr ''0'',
                     ''Down'' \<mapsto> PyStr ''0'']\<rparr>"
  unfolding example_lines
  by (simp add: member_status_line_skipped example_skipped example_row_step
        example_summary_step del: fun_upd_apply)

lemma bad_summary_examples:
  "splitlines ''Valid:1 / Down'' = [''Valid:1 / Down'']"
  "py_split ''/'' ''Valid:1 / Down'' = [''Valid:1 '', '' Down'']"
  "splitlines ''Valid:1:2 / Down:0'' = [''Valid:1:2 / Down:0'']"
  "py_split ''/'' ''Valid:1:2 / Down:0'' = [''Valid:1:2 '', '' Down:0'']"
  "\<not> skipped ''Valid:1 / Down''" "\<not> skipped ''Valid:1:2 / Down:0''"
  by (simp_all add: splitlines_def py_split_def skipped_def startswith_def)

subsection \<open>When member_status returns\<close>

text \<open>
  C10. \<^verbatim>\<open>member_status\<close> returns a mapping exactly when, in every line that is not skipped
  and contains \<^verbatim>\<open>"/"\<close>, every piece between the slashes splits on \<^verbatim>\<open>":"\<close> into exactly
  two parts. When such a line has a piece with no \<^verbatim>\<open>":"\<close> or with more than one, the
  unpacking \<^verbatim>\<open>key, val = item.split(':')\<close> raises \<^verbatim>\<open>ValueError\<close> and nothing is returned.
\<close>

theorem member_status_total_iff:
  assumes "ex log ''riak-admin member-status'' = raw"
  shows "((\<exists>r. fst (member_status ex log) = Inr r) \<longleftrightarrow>
            (\<forall>line \<in> set (splitlines raw). \<not> skipped line \<and> CHR ''/'' \<in> set line \<longrightarrow>
               (\<forall>item \<in> set (py_split ''/'' line). length (py_split '':'' item) = 2))) \<and>
         (line \<in> set (splitlines raw) \<and> \<not> skipped line \<and> CHR ''/'' \<in> set line \<and>
          item \<in> set (py_split ''/'' line) \<and> count_list item CHR '':'' \<noteq> 1
            \<longrightarrow> fst (member_status ex log) = Inl ValueError)"
proof -
  let ?ok = "\<forall>line \<in> set (splitlines raw). \<not> skipped line \<and> CHR ''/'' \<in> set line \<longrightarrow>
               (\<forall>item \<in> set (py_split ''/'' line). length (py_split '':'' item) = 2)"
  have fst_eq: "fst (member_status ex log) = member_status_loop (splitlines raw) member_status_init"
    using assms by (simp add: member_status_unfold)
  have ok: "?ok \<Longrightarrow> \<exists>r. fst (member_status ex log) = Inr r"
    unfolding fst_eq by (rule member_status_loop_ok)
  have bad: "\<not> ?ok \<Longrightarrow> fst (member_status ex log) = Inl ValueError"
    unfolding fst_eq by (rule member_status_loop_bad) auto
  have iff: "(\<exists>r. fst (member_status ex log) = Inr r) \<longleftrightarrow> ?ok"
    using ok bad by (cases ?ok) auto
  have "fst (member_status ex log) = Inl ValueError"
    if "line \<in> set (splitlines raw)" "\<not> skipped line" "CHR ''/'' \<in> set line"
       "item \<in> set (py_split ''/'' line)" "count_list item CHR '':'' \<noteq> 1"
  proof -
    from that(5) have "length (py_split '':'' item) \<noteq> 2"
      by (simp add: py_split_colon_length)
    with that(1-4) have "\<not> ?ok" by blast
    then show ?thesis by (rule bad)
  qed
  with iff show ?thesis by blast
qed

theorem member_status_total_iff_witness:
  "fst (member_status (\<lambda>_ _. ''Valid:1 / Down'') []) = Inl ValueError \<and>
   fst (member_status (\<lambda>_ _. ''Valid:1:2 / Down:0'') []) = Inl ValueError \<and>
   (\<exists>r. fst (member_status (\<lambda>_ _. ''Valid:1 / Down:0'') []) = Inr r)"
proof -
  have a: "fst (member_status (\<lambda>_ _. ''Valid:1 / Down'') []) = Inl ValueError"
    using member_status_total_iff [OF refl, of "\<lambda>_ _. ''Valid:1 / Down''" "[]"
            "''Valid:1 / Down''" "'' Down''"]
    by (simp add: bad_summary_examples)
  have b: "fst (member_status (\<lambda>_ _. ''Valid:1:2 / Down:0'') []) = Inl ValueError"
    using member_status_total_iff [OF refl, of "\<lambda>_ _. ''Valid:1:2 / Down:0''" "[]"
            "''Valid:1:2 / Down:0''" "''Valid:1:2 ''"]
    by (simp add: bad_summary_examples)
  have c: "\<exists>r. fst (member_status (\<lambda>_ _. ''Valid:1 / Down:0'') []) = Inr r"
    using member_status_total_iff [OF refl, of "\<lambda>_ _. ''Valid:1 / Down:0''" "[]"]
    by (simp add: splitlines_def py_split_def)
  from a b c show ?thesis by blast
qed

subsection \<open>The loop of member_status as a fold over the lines\<close>

lemma foldl_line_error:
  "foldl (\<lambda>acc line. case acc of Inl e \<Rightarrow> Inl e | Inr r \<Rightarrow> member_status_line r line)
     (Inl e) out = Inl e"
  by (induction out) simp_all

lemma member_status_loop_foldl:
  "member_status_loop out ret =
     foldl (\<lambda>acc line. case acc of Inl e \<Rightarrow> Inl e | Inr r \<Rightarrow> member_status_line r line)
       (Inr ret) out"
proof (induction out arbitrary: ret)
  case Nil
  show ?case by simp
next
  case (Cons line out)
  show ?case
  proof (cases "member_status_line ret line")
    case (Inl e)
    then show ?thesis by (simp add: foldl_line_error)
  next
    case (Inr r)
    with Cons.IH [of r] show ?thesis by simp
  qed
qed

lemma member_status_foldl:
  "member_status ex log =
     (foldl (\<lambda>acc line. case acc of Inl e \<Rightarrow> Inl e | Inr r \<Rightarrow> member_status_line r line)
        (Inr \<lparr>membership = Map.empty,
              summary = [''Valid'' \<mapsto> PyInt 0, ''Leaving'' \<mapsto> PyInt 0, ''Exiting'' \<mapsto> PyInt 0,
                         ''Joining'' \<mapsto> PyInt 0, ''Down'' \<mapsto> PyInt 0]\<rparr>)
        (splitlines (ex log ''riak-admin member-status'')),
      log @ [''riak-admin member-status''])"
  unfolding member_status_unfold member_status_loop_foldl
  by (simp add: member_status_init_def del: fun_upd_apply)

lemma member_status_line_plain:
  "\<not> skipped line \<Longrightarrow> CHR ''/'' \<notin> set line \<Longrightarrow> \<exists>ret'. member_status_line ret line = Inr ret'"
  using member_status_line_ok [of line ret] by simp

subsection \<open>What member_status reads from each line\<close>

text \<open>
  C2. A line starting with \<^verbatim>\<open>"="\<close>, \<^verbatim>\<open>"-"\<close> or \<^verbatim>\<open>"Status"\<close> is skipped: it changes nothing.
  A line that is not skipped and contains \<^verbatim>\<open>"/"\<close> is split on \<^verbatim>\<open>"/"\<close>, each piece on
  \<^verbatim>\<open>":"\<close>, and the two parts, stripped of whitespace, are stored as key and value of the
  summary, piece after piece. A line that is not skipped and whose whitespace split is four
  tokens binds the fourth token, in the membership, to the mapping of \<^verbatim>\<open>Status\<close>, \<^verbatim>\<open>Ring\<close>
  and \<^verbatim>\<open>Pending\<close> to the first three. A line without \<^verbatim>\<open>"/"\<close> leaves the summary as it was,
  a line of another number of tokens leaves the membership as it was; a line that is not
  skipped and has no \<^verbatim>\<open>"/"\<close> always yields a result. \<^verbatim>\<open>member_status\<close> runs
  \<^verbatim>\<open>riak-admin member-status\<close> once and applies this step to the lines of its output
  (\<^verbatim>\<open>splitlines\<close>), first to last, starting from the empty membership and the summary of
  five integer zeros, and stopping at the first exception. On the sample output
  the membership has the one node \<^verbatim>\<open>'riak@127.0.0.1'\<close> with \<^verbatim>\<open>valid\<close>, \<^verbatim>\<open>25.0%\<close>, \<^verbatim>\<open>--\<close>, and
  the summary is \<^verbatim>\<open>Valid\<close> 1 and 0 for \<^verbatim>\<open>Leaving\<close>, \<^verbatim>\<open>Exiting\<close>, \<^verbatim>\<open>Joining\<close>, \<^verbatim>\<open>Down\<close>, all
  as strings.
\<close>

theorem member_status_parsing:
  "(skipped line \<longrightarrow> member_status_line ret line = Inr ret) \<and>
   (\<not> skipped line \<and> CHR ''/'' \<in> set line \<and>
    (\<forall>item \<in> set (py_split ''/'' line). length (py_split '':'' item) = 2) \<longrightarrow>
      (\<exists>ret'. member_status_line ret line = Inr ret' \<and>
         summary ret' =
           fold (\<lambda>item s. s(strip (py_split '':'' item ! 0)
                               \<mapsto> PyStr (strip (py_split '':'' item ! 1))))
             (py_split ''/'' line) (summary ret))) \<and>
   (\<not> skipped line \<and> member_status_line ret line = Inr ret' \<and> split_ws line = [a, b, c, d] \<longrightarrow>
      membership ret' =
        (membership ret)(d \<mapsto> [''Status'' \<mapsto> a, ''Ring'' \<mapsto> b, ''Pending'' \<mapsto> c])) \<and>
   (CHR ''/'' \<notin> set line \<and> member_status_line ret line = Inr ret' \<longrightarrow>
      summary ret' = summary ret) \<and>
   (length (split_ws line) \<noteq> 4 \<and> member_status_line ret line = Inr ret' \<longrightarrow>
      membership ret' = membership ret) \<and>
   (\<not> skipped line \<and> CHR ''/'' \<notin> set line \<longrightarrow> (\<exists>r. member_status_line ret line = Inr r)) \<and>
   member_status (\<lambda>_ _. member_status_example) log =
     (Inr \<lparr>membership = [example_node \<mapsto> [''Status'' \<mapsto> ''valid'', ''Ring'' \<mapsto> ''25.0%'',
                                              ''Pending'' \<mapsto> ''--'']],
            summary = [''Valid'' \<mapsto> PyStr ''1'', ''Leaving'' \<mapsto> PyStr ''0'',
                       ''Exiting'' \<mapsto> PyStr ''0'', ''Joining'' \<mapsto> PyStr ''0'',
                       ''Down'' \<mapsto> PyStr ''0'']\<rparr>,
      log @ [''riak-admin member-status'']) \<and>
   member_status ex log =
     (foldl (\<lambda>acc line. case acc of Inl e \<Rightarrow> Inl e | Inr r \<Rightarrow> member_status_line r line)
        (Inr \<lparr>membership = Map.empty,
              summary = [''Valid'' \<mapsto> PyInt 0, ''Leaving'' \<mapsto> PyInt 0, ''Exiting'' \<mapsto> PyInt 0,
                         ''Joining'' \<mapsto> PyInt 0, ''Down'' \<mapsto> PyInt 0]\<rparr>)
        (splitlines (ex log ''riak-admin member-status'')),
      log @ [''riak-admin member-status''])"
proof -
  have "member_status (\<lambda>_ _. member_status_example) log =
     (Inr \<lparr>membership = [example_node \<mapsto> [''Status'' \<mapsto> ''valid'', ''Ring'' \<mapsto> ''25.0%'',
                                              ''Pending'' \<mapsto> ''--'']],
            summary = [''Valid'' \<mapsto> PyStr ''1'', ''Leaving'' \<mapsto> PyStr ''0'',
                       ''Exiting'' \<mapsto> PyStr ''0'', ''Joining'' \<mapsto> PyStr ''0'',
                       ''Down'' \<mapsto> PyStr ''0'']\<rparr>,
      log @ [''riak-admin member-status''])"
    unfolding member_status_unfold example_result by simp
  then show ?thesis
    using member_status_line_skipped [of line ret]
      member_status_line_slash [of line ret]
      member_status_line_row [of line ret ret' a b c d]
      member_status_line_no_slash [of line ret ret']
      member_status_line_no_row [of line ret ret']
      member_status_line_plain [of line ret]
      member_status_foldl [of ex log]
    by blast
qed

theorem member_status_parsing_witness:
  "skipped ''Status     Ring    Pending    Node'' \<and>
   member_status_line member_status_init ''Status     Ring    Pending    Node''
     = Inr member_status_init \<and>
   \<not> skipped example_row \<and>
   split_ws example_row = [''valid'', ''25.0%'', ''--'', example_node] \<and>
   (\<exists>ret'. member_status_line member_status_init example_row = Inr ret' \<and>
      membership ret' = [example_node \<mapsto> [''Status'' \<mapsto> ''valid'', ''Ring'' \<mapsto> ''25.0%'',
                                             ''Pending'' \<mapsto> ''--'']] \<and>
      summary ret' = summary member_status_init) \<and>
   (\<exists>ret'. member_status_line member_status_init example_summary_line = Inr ret' \<and>
      summary ret' = [''Valid'' \<mapsto> PyStr ''1'', ''Leaving'' \<mapsto> PyStr ''0'',
                      ''Exiting'' \<mapsto> PyStr ''0'', ''Joining'' \<mapsto> PyStr ''0'',
                      ''Down'' \<mapsto> PyStr ''0''] \<and>
      membership ret' = membership member_status_init) \<and>
   member_status (\<lambda>_ _. []) [] = (Inr member_status_init, [''riak-admin member-status'']) \<and>
   fst (member_status (\<lambda>_ _. ''-----\<newline>'' @ example_row) [])
     = member_status_line member_status_init example_row"
proof -
  let ?row = "member_status_init\<lparr>membership :=
              [example_node \<mapsto> [''Status'' \<mapsto> ''valid'', ''Ring'' \<mapsto> ''25.0%'',
                                 ''Pending'' \<mapsto> ''--'']]\<rparr>"
  have init: "member_status_init = member_status_init\<lparr>membership := Map.empty\<rparr>"
    by (simp add: member_status_init_def)
  have sum_step: "member_status_line member_status_init example_summary_line
     = Inr \<lparr>membership = Map.empty,
          summary = [''Valid'' \<mapsto> PyStr ''1'', ''Leaving'' \<mapsto> PyStr ''0'',
                     ''Exiting'' \<mapsto> PyStr ''0'', ''Joining'' \<mapsto> PyStr ''0'',
                     ''Down'' \<mapsto> PyStr ''0'']\<rparr>"
    using example_summary_step [of Map.empty] init by simp
  have hdr: "member_status_line member_status_init ''Status     Ring    Pending    Node''
     = Inr member_status_init"
    using member_status_parsing
      [of "''Status     Ring    Pending    Node''" member_status_init] example_skipped(2)
    by blast
  have row: "membership ?row = [example_node \<mapsto> [''Status'' \<mapsto> ''valid'', ''Ring'' \<mapsto> ''25.0%'',
                                             ''Pending'' \<mapsto> ''--'']] \<and>
      summary ?row = summary member_status_init"
    using member_status_parsing [of example_row member_status_init ?row
            "''valid''" "''25.0%''" "''--''" example_node]
      example_skipped(4) example_slash(1) example_row_step example_row_tokens
    by (simp add: member_status_init_def del: fun_upd_apply)
  have len: "length (split_ws example_summary_line) \<noteq> 4"
    by (simp add: example_summary_tokens)
  have sm: "membership \<lparr>membership = Map.empty,
          summary = [''Valid'' \<mapsto> PyStr ''1'', ''Leaving'' \<mapsto> PyStr ''0'',
                     ''Exiting'' \<mapsto> PyStr ''0'', ''Joining'' \<mapsto> PyStr ''0'',
                     ''Down'' \<mapsto> PyStr ''0'']\<rparr> = membership member_status_init"
    by (simp add: member_status_init_def)
  have none: "member_status (\<lambda>_ _. []) [] = (Inr member_status_init, [''riak-admin member-status''])"
    using member_status_parsing [of "[]" member_status_init member_status_init
            "[]" "[]" "[]" "[]" "[]" "\<lambda>_ _. []"]
    by (simp add: splitlines_def member_status_init_def del: fun_upd_apply)
  have two_lines: "splitlines (''-----\<newline>'' @ example_row) = [''-----'', example_row]"
    by (simp add: splitlines_def example_row_def example_node_def)
  have dash: "member_status_line member_status_init ''-----'' = Inr member_status_init"
    by (simp add: member_status_line_skipped skipped_def startswith_def)
  have two: "fst (member_status (\<lambda>_ _. ''-----\<newline>'' @ example_row) [])
     = member_status_line member_status_init example_row"
    using member_status_parsing [of "[]" member_status_init member_status_init
            "[]" "[]" "[]" "[]" "[]" "\<lambda>_ _. ''-----\<newline>'' @ example_row"] dash
    unfolding two_lines
    by (simp add: member_status_init_def del: fun_upd_apply)
  show ?thesis
    using hdr row sum_step sm example_skipped(2,4) example_row_tokens example_row_step none two
    by (simp del: fun_upd_apply)
qed

end
